theory Spec2Isabelle
  imports Main "HOL-Library.AList"
begin

section \<open>The verify\_student API: data model\<close>

text \<open>
  The module \<^verbatim>\<open>lms/djangoapps/verify_student/api.py\<close> has three functions:
  \<^verbatim>\<open>send_approval_email\<close>, \<^verbatim>\<open>create_verification_attempt\<close> and
  \<^verbatim>\<open>update_verification_attempt_status\<close>. They read the Django settings, talk to
  the table of \<^verbatim>\<open>VerificationAttempt\<close> rows through the object-relational mapper,
  write to the error log and hand emails to one of two delivery functions. Each of these
  effects is a field of the record \<open>state\<close> below, and every function returns its
  result (an exception is \<open>Inl\<close>) together with the state it leaves behind.
\<close>

subsection \<open>Users, dates and Python values\<close>

text \<open>
  The user and its profile belong to other applications; the module reads
  \<^verbatim>\<open>attempt.user.email\<close> and \<^verbatim>\<open>attempt.user.profile.name\<close> only.
\<close>

record profile =
  name :: string

record user =
  email :: string
  profile :: profile

text \<open>
  A \<^verbatim>\<open>datetime\<close> extends a \<^verbatim>\<open>date\<close> by the time of day, so that
  \<^verbatim>\<open>dt.date()\<close> is the truncation of the record to its date part.
\<close>

record date =
  year :: nat
  month :: nat
  day :: nat

record datetime = date +
  hour :: nat
  minute :: nat
  second :: nat

definition date_of :: "datetime \<Rightarrow> date" where
  "date_of dt = date.truncate dt"

text \<open>
  The values that are stored in the settings dictionary and in the two email contexts.
  A dictionary literal is an association list in insertion order; \<^verbatim>\<open>d[k] = v\<close> is
  \<^const>\<open>AList.update\<close>, which overwrites in place or appends.
\<close>

datatype pyval =
    PyNone
  | PyBool bool
  | PyInt int
  | PyStr string
  | PyUser user
  | PyDict "(string \<times> pyval) list"

type_synonym pydict = "(string \<times> pyval) list"

fun truthy :: "pyval \<Rightarrow> bool" where
  "truthy PyNone = False"
| "truthy (PyBool b) = b"
| "truthy (PyInt i) = (i \<noteq> 0)"
| "truthy (PyStr s) = (s \<noteq> [])"
| "truthy (PyUser u) = True"
| "truthy (PyDict d) = (d \<noteq> [])"

text \<open>\<^verbatim>\<open>d.get(k)\<close>: the value stored under \<open>k\<close>, and \<^verbatim>\<open>None\<close> when there is none.\<close>

definition dict_get :: "pydict \<Rightarrow> string \<Rightarrow> pyval" where
  "dict_get d k = (case map_of d k of None \<Rightarrow> PyNone | Some v \<Rightarrow> v)"

text \<open>\<^verbatim>\<open>s.startswith(p)\<close>.\<close>

definition startswith :: "string \<Rightarrow> string \<Rightarrow> bool" where
  "startswith s p = (take (length p) s = p)"

subsection \<open>Formatting\<close>

text \<open>
  \<^verbatim>\<open>date.strftime\<close> for the directives the module uses: \<^verbatim>\<open>%m\<close> and \<^verbatim>\<open>%d\<close> are
  the month and the day as two decimal digits, \<^verbatim>\<open>%Y\<close> is the year as four decimal
  digits (Python's dates have years from 1 to 9999). Every other character of the format
  is copied.
\<close>

definition digit :: "nat \<Rightarrow> char" where
  "digit n = ''0123456789'' ! (n mod 10)"

definition pad2 :: "nat \<Rightarrow> string" where
  "pad2 n = [digit (n div 10), digit n]"

definition pad4 :: "nat \<Rightarrow> string" where
  "pad4 n = [digit (n div 1000), digit (n div 100), digit (n div 10), digit n]"

fun strftime :: "string \<Rightarrow> date \<Rightarrow> string" where
  "strftime (c # x # fmt) d =
     (if c = CHR ''%'' then
        (if x = CHR ''m'' then pad2 (month d) @ strftime fmt d
         else if x = CHR ''d'' then pad2 (day d) @ strftime fmt d
         else if x = CHR ''Y'' then pad4 (year d) @ strftime fmt d
         else c # x # strftime fmt d)
      else c # strftime (x # fmt) d)"
| "strftime fmt d = fmt"

text \<open>
  \<^verbatim>\<open>_(msgid)\<close>: the message itself, as when no translation catalogue is active (the
  module's test expects the English subject).
\<close>

definition gettext :: "string \<Rightarrow> string" where
  "gettext msgid = msgid"

text \<open>
  \<^verbatim>\<open>template.format(key=v)\<close> for a template whose only replacement fields are
  \<^verbatim>\<open>{key}\<close>: every occurrence of the field is replaced by \<open>v\<close>.
\<close>

fun format_field :: "string \<Rightarrow> string \<Rightarrow> string \<Rightarrow> string" where
  "format_field key v [] = []"
| "format_field key v (c # cs) =
     (if take (length key + 2) (c # cs) = ''{'' @ key @ ''}''
      then v @ format_field key v (drop (length key + 2) (c # cs))
      else c # format_field key v cs)"

subsection \<open>Settings\<close>

record settings =
  PLATFORM_NAME :: string
  VERIFY_STUDENT :: pydict

subsection \<open>The table of verification attempts\<close>

text \<open>
  The columns of a \<^verbatim>\<open>VerificationAttempt\<close> that the module and its tests read and
  write. The primary key \<^verbatim>\<open>id\<close> is the key of the table.
\<close>

record VerificationAttempt =
  user :: user
  name :: string
  status :: string
  expiration_datetime :: "datetime option"

datatype error =
    VerificationAttemptInvalidStatus
  | DoesNotExist
  | AttributeError

text \<open>The calls that reach the database, in the order they are made.\<close>

datatype db_op = Insert int | Select int | Update int

text \<open>The two messages the module writes with \<^verbatim>\<open>log.error\<close>, with the values they show.\<close>

datatype log_record =
    InvalidStatusCalled "string list"
  | AttemptNotFound int string

text \<open>
  The two email backends: \<^verbatim>\<open>send_verification_status_email.delay(context)\<close> queues a
  task, \<^verbatim>\<open>send_verification_approved_email(context=...)\<close> sends directly. A call is
  recorded with the context it was given.
\<close>

datatype email_call =
    send_verification_status_email_delay pydict
  | send_verification_approved_email pydict

record state =
  attempts :: "int \<rightharpoonup> VerificationAttempt"
  next_id :: int
  db_ops :: "db_op list"
  error_log :: "log_record list"
  email_calls :: "email_call list"

text \<open>
  The database hands out primary keys from a counter that is above every key in use.
\<close>

definition wf_db :: "state \<Rightarrow> bool" where
  "wf_db s \<longleftrightarrow> (\<forall>i \<in> dom (attempts s). i < next_id s)"

subsection \<open>The object-relational mapper\<close>

text \<open>
  Modelled from the spec: \<^verbatim>\<open>models.py\<close>, which declares \<^verbatim>\<open>VerificationAttempt\<close>, is
  missing, and the manager and \<^verbatim>\<open>save\<close> it inherits belong to the web framework. The
  spec says that the module "persists a record through an object-relational mapping layer"
  and describes "a single record type (a verification attempt) with fields for owning
  user, name, status (one of a small fixed enumeration), and an optional expiration
  timestamp"; the tests read back what was written and expect the second row to get the
  id 2. \<^verbatim>\<open>objects.create\<close> stores the row it is given under the next key and returns
  the instance, \<^verbatim>\<open>objects.get(id=i)\<close> returns the row with key \<open>i\<close> or raises
  \<^verbatim>\<open>DoesNotExist\<close>, and \<^verbatim>\<open>save\<close> writes every column of the instance back under
  its key. None of them looks at the value of a column.
\<close>

definition objects_create ::
  "user \<Rightarrow> string \<Rightarrow> string \<Rightarrow> datetime option \<Rightarrow> state \<Rightarrow> (int \<times> VerificationAttempt) \<times> state" where
  "objects_create user' name' status' expiration_datetime' s =
     (let i = next_id s;
          row = \<lparr>user = user', name = name', status = status',
                 expiration_datetime = expiration_datetime'\<rparr>
      in ((i, row),
          s\<lparr>attempts := (attempts s)(i \<mapsto> row), next_id := i + 1,
            db_ops := db_ops s @ [Insert i]\<rparr>))"

definition objects_get :: "int \<Rightarrow> state \<Rightarrow> (error + int \<times> VerificationAttempt) \<times> state" where
  "objects_get i s =
     (case attempts s i of
        None \<Rightarrow> (Inl DoesNotExist, s\<lparr>db_ops := db_ops s @ [Select i]\<rparr>)
      | Some row \<Rightarrow> (Inr (i, row), s\<lparr>db_ops := db_ops s @ [Select i]\<rparr>))"

definition save :: "int \<times> VerificationAttempt \<Rightarrow> state \<Rightarrow> state" where
  "save instance' s =
     s\<lparr>attempts := (attempts s)(fst instance' \<mapsto> snd instance'),
       db_ops := db_ops s @ [Update (fst instance')]\<rparr>"

definition log_error :: "log_record \<Rightarrow> state \<Rightarrow> state" where
  "log_error msg s = s\<lparr>error_log := error_log s @ [msg]\<rparr>"

section \<open>The three functions of the API\<close>

subsection \<open>\<^verbatim>\<open>send_approval_email\<close>\<close>

text \<open>
  \<^verbatim>\<open>attempt.expiration_datetime.date()\<close> is evaluated before the branch on the
  setting; on \<^verbatim>\<open>None\<close> it raises \<^verbatim>\<open>AttributeError\<close>.
\<close>

definition send_approval_email ::
  "settings \<Rightarrow> VerificationAttempt \<Rightarrow> state \<Rightarrow> (error + unit) \<times> state" where
  "send_approval_email settings' attempt s =
     (let verification_status_email_vars =
            [(''platform_name'', PyStr (PLATFORM_NAME settings'))]
      in case expiration_datetime attempt of
           None \<Rightarrow> (Inl AttributeError, s)
         | Some dt \<Rightarrow>
             (let expiration_date = date_of dt in
              if truthy (dict_get (VERIFY_STUDENT settings') ''USE_DJANGO_MAIL'') then
                (let vars1 = AList.update ''expiration_datetime''
                               (PyStr (strftime ''%m/%d/%Y'' expiration_date))
                               verification_status_email_vars;
                     vars2 = AList.update ''full_name''
                               (PyStr (profile.name (profile (user attempt)))) vars1;
                     subject = format_field ''platform_name'' (PLATFORM_NAME settings')
                                 (gettext ''Your {platform_name} ID verification was approved!'');
                     context = [(''subject'', PyStr subject),
                                (''template'', PyStr ''emails/passed_verification_email.txt''),
                                (''email'', PyStr (email (user attempt))),
                                (''email_vars'', PyDict vars2)]
                 in (Inr (),
                     s\<lparr>email_calls :=
                         email_calls s @ [send_verification_status_email_delay context]\<rparr>))
              else
                (let email_context =
                       [(''user'', PyUser (user attempt)),
                        (''expiration_datetime'',
                         PyStr (strftime ''%m/%d/%Y'' expiration_date))]
                 in (Inr (),
                     s\<lparr>email_calls :=
                         email_calls s @ [send_verification_approved_email email_context]\<rparr>))))"

subsection \<open>\<^verbatim>\<open>create_verification_attempt\<close>\<close>

definition create_verification_attempt ::
  "user \<Rightarrow> string \<Rightarrow> string \<Rightarrow> datetime option \<Rightarrow> state \<Rightarrow> (error + int) \<times> state" where
  "create_verification_attempt user' name' status' expiration_datetime' s =
     (let (verification_attempt, s1) =
            objects_create user' name' status' expiration_datetime' s
      in (Inr (fst verification_attempt), s1))"

text \<open>The call without the optional argument: \<^verbatim>\<open>expiration_datetime=None\<close>.\<close>

definition create_verification_attempt_default ::
  "user \<Rightarrow> string \<Rightarrow> string \<Rightarrow> state \<Rightarrow> (error + int) \<times> state" where
  "create_verification_attempt_default user' name' status' s =
     create_verification_attempt user' name' status' None s"

subsection \<open>\<^verbatim>\<open>update_verification_attempt_status\<close>\<close>

text \<open>
  The class \<^verbatim>\<open>VerificationAttemptStatus\<close> is declared in \<^verbatim>\<open>statuses.py\<close>, which is
  missing; the function takes the result of \<^verbatim>\<open>dir(VerificationAttemptStatus)\<close> as its
  first argument. The allowed statuses are the attribute names that do not start with two
  underscores.
\<close>

definition status_list_of :: "string list \<Rightarrow> string list" where
  "status_list_of cls_dir = [attr \<leftarrow> cls_dir. \<not> startswith attr ''__'']"

definition update_verification_attempt_status ::
  "string list \<Rightarrow> int \<Rightarrow> string \<Rightarrow> state \<Rightarrow> (error + unit) \<times> state" where
  "update_verification_attempt_status cls_dir attempt_id status' s =
     (let status_list = status_list_of cls_dir in
      if status' \<notin> set status_list then
        (Inl VerificationAttemptInvalidStatus,
         log_error (InvalidStatusCalled status_list) s)
      else
        (case objects_get attempt_id s of
           (Inl e, s1) \<Rightarrow>
             (case e of
                DoesNotExist \<Rightarrow>
                  (Inl DoesNotExist, log_error (AttemptNotFound attempt_id status') s1)
              | _ \<Rightarrow> (Inl e, s1))
         | (Inr attempt, s1) \<Rightarrow>
             (Inr (), save (fst attempt, (snd attempt)\<lparr>status := status'\<rparr>) s1)))"

text \<open>
  Modelled from the spec: \<^verbatim>\<open>statuses.py\<close> is missing. The spec speaks of "a fixed set
  of allowed enum values"; the tests name the attributes \<^verbatim>\<open>created\<close>,
  \<^verbatim>\<open>pending\<close>, \<^verbatim>\<open>approved\<close> and \<^verbatim>\<open>denied\<close>, pass them as statuses, and expect
  \<^verbatim>\<open>completed\<close>, \<^verbatim>\<open>failed\<close>, \<^verbatim>\<open>submitted\<close> and \<^verbatim>\<open>expired\<close> to be refused. The
  list is what \<^verbatim>\<open>dir\<close> returns for a plain class with these four attributes: the
  names every class has, then the four, in alphabetical order.
\<close>

definition VerificationAttemptStatus_dir :: "string list" where
  "VerificationAttemptStatus_dir =
     [''__class__'', ''__delattr__'', ''__dict__'', ''__dir__'', ''__doc__'', ''__eq__'',
      ''__format__'', ''__ge__'', ''__getattribute__'', ''__gt__'', ''__hash__'',
      ''__init__'', ''__init_subclass__'', ''__le__'', ''__lt__'', ''__module__'',
      ''__ne__'', ''__new__'', ''__reduce__'', ''__reduce_ex__'', ''__repr__'',
      ''__setattr__'', ''__sizeof__'', ''__str__'', ''__subclasshook__'', ''__weakref__'',
      ''approved'', ''created'', ''denied'', ''pending'']"

subsection \<open>The status invariant\<close>

text \<open>
  Every stored attempt has a status that \<^verbatim>\<open>update_verification_attempt_status\<close> would
  accept.
\<close>

definition statuses_valid :: "string list \<Rightarrow> state \<Rightarrow> bool" where
  "statuses_valid cls_dir s \<longleftrightarrow>
     (\<forall>row \<in> ran (attempts s). status row \<in> set (status_list_of cls_dir))"

subsection \<open>The fixtures of the tests\<close>

definition test_user :: user where
  "test_user = \<lparr>email = ''robot@example.com'', profile = \<lparr>profile.name = ''Robot''\<rparr>\<rparr>"

definition test_expiration :: datetime where
  "test_expiration =
     \<lparr>year = 2024, month = 12, day = 31, hour = 0, minute = 0, second = 0\<rparr>"

definition test_attempt :: VerificationAttempt where
  "test_attempt =
     \<lparr>user = test_user, name = ''Tester McTest'', status = ''created'',
      expiration_datetime = Some test_expiration\<rparr>"

definition empty_state :: state where
  "empty_state =
     \<lparr>attempts = Map.empty, next_id = 1, db_ops = [], error_log = [], email_calls = []\<rparr>"

text \<open>The state after \<^verbatim>\<open>setUp\<close>: one attempt, with id 1.\<close>

definition test_state :: state where
  "test_state =
     \<lparr>attempts = [1 \<mapsto> test_attempt], next_id = 2, db_ops = [Insert 1],
      error_log = [], email_calls = []\<rparr>"

definition test_settings :: "bool \<Rightarrow> settings" where
  "test_settings use_django_mail =
     \<lparr>PLATFORM_NAME = ''edX'',
      VERIFY_STUDENT = [(''DAYS_GOOD_FOR'', PyInt 365),
                        (''USE_DJANGO_MAIL'', PyBool use_django_mail)]\<rparr>"

section \<open>Evaluation lemmas\<close>

lemma status_list_of_VerificationAttemptStatus:
  "status_list_of VerificationAttemptStatus_dir =
     [''approved'', ''created'', ''denied'', ''pending'']"
  by (simp add: status_list_of_def VerificationAttemptStatus_dir_def startswith_def)

lemma strftime_test_expiration:
  "strftime ''%m/%d/%Y'' (date_of test_expiration) = ''12/31/2024''"
  by (simp add: date_of_def test_expiration_def date.truncate_def pad2_def pad4_def digit_def)

text \<open>
  The three outcomes of \<^const>\<open>update_verification_attempt_status\<close>, and the one of
  \<^const>\<open>create_verification_attempt\<close>, as equations on the whole state.
\<close>

lemma update_invalid:
  assumes "st \<notin> set (status_list_of cls_dir)"
  shows "update_verification_attempt_status cls_dir attempt_id st s =
           (Inl VerificationAttemptInvalidStatus,
            s\<lparr>error_log := error_log s @ [InvalidStatusCalled (status_list_of cls_dir)]\<rparr>)"
  using assms
  by (simp add: update_verification_attempt_status_def log_error_def Let_def)

lemma update_valid_missing:
  assumes "st \<in> set (status_list_of cls_dir)" and "attempts s attempt_id = None"
  shows "update_verification_attempt_status cls_dir attempt_id st s =
           (Inl DoesNotExist,
            s\<lparr>db_ops := db_ops s @ [Select attempt_id],
              error_log := error_log s @ [AttemptNotFound attempt_id st]\<rparr>)"
  using assms
  by (simp add: update_verification_attempt_status_def objects_get_def log_error_def Let_def)

lemma update_valid_found:
  assumes "st \<in> set (status_list_of cls_dir)" and "attempts s attempt_id = Some row"
  shows "update_verification_attempt_status cls_dir attempt_id st s =
           (Inr (),
            s\<lparr>attempts := (attempts s)(attempt_id \<mapsto> row\<lparr>status := st\<rparr>),
              db_ops := db_ops s @ [Select attempt_id, Update attempt_id]\<rparr>)"
  using assms
  by (simp add: update_verification_attempt_status_def objects_get_def save_def Let_def)

lemma create_eq:
  "create_verification_attempt u n st e s =
     (Inr (next_id s),
      s\<lparr>attempts := (attempts s)(next_id s \<mapsto>
            \<lparr>user = u, name = n, status = st, expiration_datetime = e\<rparr>),
        next_id := next_id s + 1, db_ops := db_ops s @ [Insert (next_id s)]\<rparr>)"
  by (simp add: create_verification_attempt_def objects_create_def Let_def)

section \<open>The key counter stays above the keys\<close>

lemma wf_db_empty_state: "wf_db empty_state"
  by (simp add: wf_db_def empty_state_def)

lemma wf_db_test_state: "wf_db test_state"
  by (simp add: wf_db_def test_state_def)

lemma wf_db_fresh: "wf_db s \<Longrightarrow> attempts s (next_id s) = None"
  by (force simp: wf_db_def dom_def)

lemma wf_db_send: "wf_db s \<Longrightarrow> wf_db (snd (send_approval_email cfg a s))"
  by (auto simp: wf_db_def send_approval_email_def Let_def split: option.splits)

lemma wf_db_create: "wf_db s \<Longrightarrow> wf_db (snd (create_verification_attempt u n st e s))"
  by (force simp: wf_db_def create_eq dom_def)

lemma wf_db_update:
  "wf_db s \<Longrightarrow> wf_db (snd (update_verification_attempt_status cls_dir i st s))"
  by (auto simp: wf_db_def update_verification_attempt_status_def objects_get_def save_def
      log_error_def Let_def split: option.splits)

section \<open>Rejected statuses\<close>

text \<open>
  Claim C1. When the status is not one of the allowed statuses,
  \<^verbatim>\<open>update_verification_attempt_status\<close> raises \<^verbatim>\<open>VerificationAttemptInvalidStatus\<close>;
  the table of attempts and the key counter are as before, and no call has reached the
  database: no attempt was read or written.
\<close>

theorem update_invalid_status_raises:
  assumes "st \<notin> set (status_list_of cls_dir)"
  shows "fst (update_verification_attempt_status cls_dir attempt_id st s)
           = Inl VerificationAttemptInvalidStatus
         \<and> attempts (snd (update_verification_attempt_status cls_dir attempt_id st s))
             = attempts s
         \<and> next_id (snd (update_verification_attempt_status cls_dir attempt_id st s))
             = next_id s
         \<and> db_ops (snd (update_verification_attempt_status cls_dir attempt_id st s))
             = db_ops s"
  by (simp add: update_invalid [OF assms])

text \<open>The test \<^verbatim>\<open>test_update_verification_attempt_status_invalid\<close> with \<^verbatim>\<open>submitted\<close>.\<close>

theorem update_invalid_status_raises_witness:
  "''submitted'' \<notin> set (status_list_of VerificationAttemptStatus_dir)
   \<and> fst (update_verification_attempt_status VerificationAttemptStatus_dir 1 ''submitted''
            test_state) = Inl VerificationAttemptInvalidStatus
   \<and> attempts (snd (update_verification_attempt_status VerificationAttemptStatus_dir 1
                      ''submitted'' test_state)) 1 = Some test_attempt
   \<and> db_ops (snd (update_verification_attempt_status VerificationAttemptStatus_dir 1
                    ''submitted'' test_state)) = [Insert 1]"
proof -
  have invalid: "''submitted'' \<notin> set (status_list_of VerificationAttemptStatus_dir)"
    by (simp add: status_list_of_VerificationAttemptStatus)
  show ?thesis
    using invalid
      update_invalid_status_raises [OF invalid, where attempt_id = 1 and s = test_state]
    by (simp add: test_state_def)
qed

text \<open>
  Claim C8. The status is checked before the attempt is looked up: with a status that is
  not allowed and an id that no attempt has, the exception is
  \<^verbatim>\<open>VerificationAttemptInvalidStatus\<close> and not \<^verbatim>\<open>DoesNotExist\<close>, and the database has
  not been queried.
\<close>

theorem update_validates_before_lookup:
  assumes "st \<notin> set (status_list_of cls_dir)" and "attempts s attempt_id = None"
  shows "fst (update_verification_attempt_status cls_dir attempt_id st s)
           = Inl VerificationAttemptInvalidStatus
         \<and> fst (update_verification_attempt_status cls_dir attempt_id st s)
             \<noteq> Inl DoesNotExist
         \<and> Select attempt_id
             \<notin> set (db_ops (snd (update_verification_attempt_status cls_dir attempt_id st s)))
               - set (db_ops s)
         \<and> db_ops (snd (update_verification_attempt_status cls_dir attempt_id st s))
             = db_ops s"
  by (simp add: update_invalid [OF assms(1)])

theorem update_validates_before_lookup_witness:
  "''expired'' \<notin> set (status_list_of VerificationAttemptStatus_dir)
   \<and> attempts test_state 999999 = None
   \<and> fst (update_verification_attempt_status VerificationAttemptStatus_dir 999999 ''expired''
            test_state) = Inl VerificationAttemptInvalidStatus
   \<and> db_ops (snd (update_verification_attempt_status VerificationAttemptStatus_dir 999999
                    ''expired'' test_state)) = [Insert 1]"
proof -
  have invalid: "''expired'' \<notin> set (status_list_of VerificationAttemptStatus_dir)"
    by (simp add: status_list_of_VerificationAttemptStatus)
  have missing: "attempts test_state 999999 = None"
    by (simp add: test_state_def)
  show ?thesis
    using invalid missing update_validates_before_lookup [OF invalid missing]
    by (simp add: test_state_def)
qed

section \<open>Missing attempts\<close>

text \<open>
  Claim C9. With an allowed status and an id that no attempt has,
  \<^verbatim>\<open>update_verification_attempt_status\<close> raises \<^verbatim>\<open>DoesNotExist\<close>; no row is created or
  changed: the table of attempts and the key counter are as before, and the one call that
  reached the database is the lookup.
\<close>

theorem update_missing_attempt_raises:
  assumes "st \<in> set (status_list_of cls_dir)" and "attempts s attempt_id = None"
  shows "fst (update_verification_attempt_status cls_dir attempt_id st s) = Inl DoesNotExist
         \<and> attempts (snd (update_verification_attempt_status cls_dir attempt_id st s))
             = attempts s
         \<and> next_id (snd (update_verification_attempt_status cls_dir attempt_id st s))
             = next_id s
         \<and> db_ops (snd (update_verification_attempt_status cls_dir attempt_id st s))
             = db_ops s @ [Select attempt_id]"
  by (simp add: update_valid_missing [OF assms])

text \<open>The test \<^verbatim>\<open>test_update_verification_attempt_status_not_found\<close>.\<close>

theorem update_missing_attempt_raises_witness:
  "''approved'' \<in> set (status_list_of VerificationAttemptStatus_dir)
   \<and> attempts test_state 999999 = None
   \<and> fst (update_verification_attempt_status VerificationAttemptStatus_dir 999999 ''approved''
            test_state) = Inl DoesNotExist
   \<and> attempts (snd (update_verification_attempt_status VerificationAttemptStatus_dir 999999
                      ''approved'' test_state)) 1 = Some test_attempt
   \<and> attempts (snd (update_verification_attempt_status VerificationAttemptStatus_dir 999999
                      ''approved'' test_state)) 999999 = None"
proof -
  have valid: "''approved'' \<in> set (status_list_of VerificationAttemptStatus_dir)"
    by (simp add: status_list_of_VerificationAttemptStatus)
  have missing: "attempts test_state 999999 = None"
    by (simp add: test_state_def)
  show ?thesis
    using valid missing update_missing_attempt_raises [OF valid missing]
    by (simp add: test_state_def)
qed

section \<open>Status updates\<close>

text \<open>
  Claim C3. For an attempt that exists and an allowed status,
  \<^verbatim>\<open>update_verification_attempt_status\<close> leaves the user, the name and the expiration
  time of the addressed attempt as they were, and leaves every other row of the table
  (present or absent) as it was.
\<close>

theorem update_changes_only_status:
  assumes "st \<in> set (status_list_of cls_dir)" and "attempts s attempt_id = Some row"
  shows "(\<exists>row'. attempts (snd (update_verification_attempt_status cls_dir attempt_id st s))
                    attempt_id = Some row'
                \<and> user row' = user row \<and> name row' = name row
                \<and> expiration_datetime row' = expiration_datetime row)
         \<and> (\<forall>j. j \<noteq> attempt_id \<longrightarrow>
               attempts (snd (update_verification_attempt_status cls_dir attempt_id st s)) j
                 = attempts s j)"
  by (simp add: update_valid_found [OF assms])

text \<open>The test \<^verbatim>\<open>test_update_verification_attempt_status\<close> with \<^verbatim>\<open>approved\<close>.\<close>

theorem update_changes_only_status_witness:
  "''approved'' \<in> set (status_list_of VerificationAttemptStatus_dir)
   \<and> attempts test_state 1 = Some test_attempt
   \<and> (\<exists>row'. attempts (snd (update_verification_attempt_status VerificationAttemptStatus_dir 1
                               ''approved'' test_state)) 1 = Some row'
          \<and> user row' = test_user \<and> name row' = ''Tester McTest''
          \<and> expiration_datetime row' = Some test_expiration)
   \<and> attempts (snd (update_verification_attempt_status VerificationAttemptStatus_dir 1
                      ''approved'' test_state)) 2 = None"
proof -
  have valid: "''approved'' \<in> set (status_list_of VerificationAttemptStatus_dir)"
    by (simp add: status_list_of_VerificationAttemptStatus)
  have found: "attempts test_state 1 = Some test_attempt"
    by (simp add: test_state_def)
  show ?thesis
    using valid found update_changes_only_status [OF valid found]
    by (simp add: test_attempt_def test_state_def)
qed

text \<open>
  Claim C4. For an attempt that exists and an allowed status,
  \<^verbatim>\<open>update_verification_attempt_status\<close> returns \<^verbatim>\<open>None\<close>, the stored attempt is the
  old one with its status set to the given status, and the attempt was read once and saved
  once.
\<close>

theorem update_sets_status:
  assumes "st \<in> set (status_list_of cls_dir)" and "attempts s attempt_id = Some row"
  shows "fst (update_verification_attempt_status cls_dir attempt_id st s) = Inr ()
         \<and> attempts (snd (update_verification_attempt_status cls_dir attempt_id st s))
             attempt_id = Some (row\<lparr>status := st\<rparr>)
         \<and> db_ops (snd (update_verification_attempt_status cls_dir attempt_id st s))
             = db_ops s @ [Select attempt_id, Update attempt_id]"
  by (simp add: update_valid_found [OF assms])

text \<open>The same test with \<^verbatim>\<open>denied\<close>.\<close>

theorem update_sets_status_witness:
  "''denied'' \<in> set (status_list_of VerificationAttemptStatus_dir)
   \<and> attempts test_state 1 = Some test_attempt
   \<and> fst (update_verification_attempt_status VerificationAttemptStatus_dir 1 ''denied''
            test_state) = Inr ()
   \<and> attempts (snd (update_verification_attempt_status VerificationAttemptStatus_dir 1
                      ''denied'' test_state)) 1
       = Some (test_attempt\<lparr>status := ''denied''\<rparr>)
   \<and> db_ops (snd (update_verification_attempt_status VerificationAttemptStatus_dir 1 ''denied''
                    test_state))
       = [Insert 1, Select 1, Update 1]"
proof -
  have valid: "''denied'' \<in> set (status_list_of VerificationAttemptStatus_dir)"
    by (simp add: status_list_of_VerificationAttemptStatus)
  have found: "attempts test_state 1 = Some test_attempt"
    by (simp add: test_state_def)
  show ?thesis
    using valid found update_sets_status [OF valid found]
    by (simp add: test_state_def)
qed

section \<open>Creating an attempt\<close>

text \<open>
  Claim C5. \<^verbatim>\<open>create_verification_attempt\<close> returns the id of a row that did not exist
  before; afterwards the table is the old table with, under that id, a row whose user,
  name, status and expiration time are the arguments, so that exactly one id is new. When
  the expiration time is omitted the stored one is \<^verbatim>\<open>None\<close>.
\<close>

theorem create_persists_one_new_record:
  assumes "wf_db s"
  shows "fst (create_verification_attempt u n st e s) = Inr (next_id s)
         \<and> attempts s (next_id s) = None
         \<and> attempts (snd (create_verification_attempt u n st e s))
             = (attempts s)(next_id s \<mapsto>
                  \<lparr>user = u, name = n, status = st, expiration_datetime = e\<rparr>)
         \<and> dom (attempts (snd (create_verification_attempt u n st e s)))
             = insert (next_id s) (dom (attempts s))
         \<and> fst (create_verification_attempt_default u n st s) = Inr (next_id s)
         \<and> attempts (snd (create_verification_attempt_default u n st s))
             = (attempts s)(next_id s \<mapsto>
                  \<lparr>user = u, name = n, status = st, expiration_datetime = None\<rparr>)"
  using wf_db_fresh [OF assms]
  by (simp add: create_eq create_verification_attempt_default_def)

text \<open>
  The tests \<^verbatim>\<open>test_create_verification_attempt\<close> and
  \<^verbatim>\<open>test_create_verification_attempt_no_expiration_datetime\<close>: the new id is 2.
\<close>

theorem create_persists_one_new_record_witness:
  "wf_db test_state
   \<and> fst (create_verification_attempt test_user ''Tester McTest'' ''created''
            (Some test_expiration) test_state) = Inr 2
   \<and> attempts test_state 2 = None
   \<and> attempts (snd (create_verification_attempt test_user ''Tester McTest'' ''created''
                      (Some test_expiration) test_state)) 2 = Some test_attempt
   \<and> attempts (snd (create_verification_attempt test_user ''Tester McTest'' ''created''
                      (Some test_expiration) test_state)) 1 = Some test_attempt
   \<and> dom (attempts (snd (create_verification_attempt test_user ''Tester McTest'' ''created''
                           (Some test_expiration) test_state))) = {1, 2}
   \<and> attempts (snd (create_verification_attempt_default test_user ''Tester McTest'' ''created''
                      test_state)) 2
       = Some (test_attempt\<lparr>expiration_datetime := None\<rparr>)"
proof -
  have wf: "wf_db test_state"
    by (simp add: wf_db_def test_state_def)
  show ?thesis
    using wf create_persists_one_new_record [OF wf, where u = test_user
        and n = "''Tester McTest''" and st = "''created''" and e = "Some test_expiration"]
    by (auto simp: test_state_def test_attempt_def)
qed

section \<open>The status invariant\<close>

text \<open>
  Sending an email and updating a status keep every stored status among the allowed ones;
  creating an attempt does so when the status it is given is allowed.
\<close>

lemma statuses_valid_send:
  "statuses_valid cls_dir s \<Longrightarrow> statuses_valid cls_dir (snd (send_approval_email cfg a s))"
  by (simp add: statuses_valid_def send_approval_email_def Let_def split: option.splits)

lemma statuses_valid_update:
  assumes "statuses_valid cls_dir s"
  shows "statuses_valid cls_dir (snd (update_verification_attempt_status cls_dir i st s))"
proof (cases "st \<in> set (status_list_of cls_dir)")
  case False
  with assms show ?thesis
    by (simp add: update_invalid statuses_valid_def)
next
  case True
  show ?thesis
  proof (cases "attempts s i")
    case None
    with True assms show ?thesis
      by (simp add: update_valid_missing statuses_valid_def)
  next
    case (Some row)
    with True assms show ?thesis
      by (auto simp: update_valid_found statuses_valid_def ran_def)
  qed
qed

lemma statuses_valid_create:
  assumes "st \<in> set (status_list_of cls_dir)" and "statuses_valid cls_dir s"
  shows "statuses_valid cls_dir (snd (create_verification_attempt u n st e s))"
  using assms by (auto simp: create_eq statuses_valid_def ran_def)

lemma statuses_valid_test_state: "statuses_valid VerificationAttemptStatus_dir test_state"
  by (simp add: statuses_valid_def test_state_def test_attempt_def
      status_list_of_VerificationAttemptStatus)

text \<open>
  Claim C2 says that every stored status is one of the enumeration and that
  \<^verbatim>\<open>create_verification_attempt\<close> never stores another one. The function hands its
  \<^verbatim>\<open>status\<close> argument to \<^verbatim>\<open>objects.create\<close> without the membership test that
  \<^verbatim>\<open>update_verification_attempt_status\<close> makes. Called in the state of the tests with
  \<^verbatim>\<open>submitted\<close>, a status that the update refuses, it returns the id 2 and the row
  stored under 2 has the status \<^verbatim>\<open>submitted\<close>.
\<close>

theorem create_persists_status_outside_enumeration:
  "''submitted'' \<notin> set (status_list_of VerificationAttemptStatus_dir)
   \<and> fst (create_verification_attempt test_user ''Tester McTest'' ''submitted'' None test_state)
       = Inr 2
   \<and> map_option status
       (attempts (snd (create_verification_attempt test_user ''Tester McTest'' ''submitted'' None
                         test_state)) 2)
       = Some ''submitted''"
  by (simp add: status_list_of_VerificationAttemptStatus create_eq test_state_def)

lemma create_breaks_statuses_valid:
  "\<not> statuses_valid VerificationAttemptStatus_dir
        (snd (create_verification_attempt test_user ''Tester McTest'' ''submitted'' None
                test_state))"
proof
  let ?s = "snd (create_verification_attempt test_user ''Tester McTest'' ''submitted'' None
                   test_state)"
  let ?row = "\<lparr>user = test_user, name = ''Tester McTest'', status = ''submitted'',
                expiration_datetime = None\<rparr>"
  assume valid: "statuses_valid VerificationAttemptStatus_dir ?s"
  have "attempts ?s 2 = Some ?row"
    by (simp add: create_eq test_state_def)
  then have "?row \<in> ran (attempts ?s)"
    by (rule ranI)
  with valid have "status ?row \<in> set (status_list_of VerificationAttemptStatus_dir)"
    unfolding statuses_valid_def by blast
  then show False
    by (simp add: status_list_of_VerificationAttemptStatus)
qed

section \<open>The approval email\<close>

text \<open>
  Claim C10. \<^verbatim>\<open>send_approval_email\<close> needs an expiration time: when
  \<^verbatim>\<open>attempt.expiration_datetime\<close> is \<^verbatim>\<open>None\<close> the call fails with
  \<^verbatim>\<open>AttributeError\<close> and neither backend has been called.
\<close>

theorem send_approval_email_requires_expiration:
  assumes "expiration_datetime attempt = None"
  shows "fst (send_approval_email cfg attempt s) = Inl AttributeError
         \<and> email_calls (snd (send_approval_email cfg attempt s)) = email_calls s"
  using assms by (simp add: send_approval_email_def Let_def)

theorem send_approval_email_requires_expiration_witness:
  "expiration_datetime (test_attempt\<lparr>expiration_datetime := None\<rparr>) = None
   \<and> fst (send_approval_email (test_settings False)
            (test_attempt\<lparr>expiration_datetime := None\<rparr>) test_state) = Inl AttributeError
   \<and> email_calls (snd (send_approval_email (test_settings False)
                         (test_attempt\<lparr>expiration_datetime := None\<rparr>) test_state)) = []"
  using send_approval_email_requires_expiration
    [where attempt = "test_attempt\<lparr>expiration_datetime := None\<rparr>"
       and cfg = "test_settings False" and s = test_state]
  by (simp add: test_state_def)

text \<open>
  Claim C6, as amended. For every attempt whose expiration time is not \<^verbatim>\<open>None\<close>,
  \<^verbatim>\<open>send_approval_email\<close> returns normally after exactly one call to a backend: when
  \<^verbatim>\<open>settings.VERIFY_STUDENT.get('USE_DJANGO_MAIL')\<close> is truthy the call is
  \<^verbatim>\<open>send_verification_status_email.delay\<close>, with the formatted date under
  \<^verbatim>\<open>expiration_datetime\<close> in the \<^verbatim>\<open>email_vars\<close> of its context, and otherwise the call is
  \<^verbatim>\<open>send_verification_approved_email\<close>, with the formatted date under
  \<^verbatim>\<open>expiration_datetime\<close> in its context. In both cases the date is the date part of
  \<^verbatim>\<open>attempt.expiration_datetime\<close> formatted with \<^verbatim>\<open>%m/%d/%Y\<close>.
\<close>

theorem send_approval_email_one_backend:
  assumes "expiration_datetime attempt = Some dt"
  shows "fst (send_approval_email cfg attempt s) = Inr ()
    \<and> (truthy (dict_get (VERIFY_STUDENT cfg) ''USE_DJANGO_MAIL'') \<longrightarrow>
         (\<exists>context email_vars.
            email_calls (snd (send_approval_email cfg attempt s))
              = email_calls s @ [send_verification_status_email_delay context]
            \<and> map_of context ''email_vars'' = Some (PyDict email_vars)
            \<and> map_of email_vars ''expiration_datetime''
                = Some (PyStr (strftime ''%m/%d/%Y'' (date_of dt)))))
    \<and> (\<not> truthy (dict_get (VERIFY_STUDENT cfg) ''USE_DJANGO_MAIL'') \<longrightarrow>
         (\<exists>context.
            email_calls (snd (send_approval_email cfg attempt s))
              = email_calls s @ [send_verification_approved_email context]
            \<and> map_of context ''expiration_datetime''
                = Some (PyStr (strftime ''%m/%d/%Y'' (date_of dt)))))"
  using assms by (simp add: send_approval_email_def Let_def)

text \<open>The test \<^verbatim>\<open>test_send_approval\<close>, with the setting on and off.\<close>

theorem send_approval_email_one_backend_witness:
  "expiration_datetime test_attempt = Some test_expiration
   \<and> fst (send_approval_email (test_settings True) test_attempt test_state) = Inr ()
   \<and> (\<exists>context email_vars.
        email_calls (snd (send_approval_email (test_settings True) test_attempt test_state))
          = [send_verification_status_email_delay context]
        \<and> map_of context ''email_vars'' = Some (PyDict email_vars)
        \<and> map_of email_vars ''expiration_datetime'' = Some (PyStr ''12/31/2024''))
   \<and> fst (send_approval_email (test_settings False) test_attempt test_state) = Inr ()
   \<and> (\<exists>context.
        email_calls (snd (send_approval_email (test_settings False) test_attempt test_state))
          = [send_verification_approved_email context]
        \<and> map_of context ''expiration_datetime'' = Some (PyStr ''12/31/2024''))"
proof -
  have exp: "expiration_datetime test_attempt = Some test_expiration"
    by (simp add: test_attempt_def)
  have on: "truthy (dict_get (VERIFY_STUDENT (test_settings True)) ''USE_DJANGO_MAIL'')"
    by (simp add: test_settings_def dict_get_def)
  have off: "\<not> truthy (dict_get (VERIFY_STUDENT (test_settings False)) ''USE_DJANGO_MAIL'')"
    by (simp add: test_settings_def dict_get_def)
  have empty: "email_calls test_state = []"
    by (simp add: test_state_def)
  show ?thesis
    using exp on off
      send_approval_email_one_backend [OF exp, where cfg = "test_settings True"
        and s = test_state]
      send_approval_email_one_backend [OF exp, where cfg = "test_settings False"
        and s = test_state]
    by (simp add: empty date_of_def test_expiration_def date.truncate_def pad2_def pad4_def
        digit_def)
qed

text \<open>
  Without the condition on the expiration time the claim fails. An attempt created without
  an expiration time has \<^verbatim>\<open>None\<close> there; with the setting on,
  \<^verbatim>\<open>send_approval_email\<close> raises \<^verbatim>\<open>AttributeError\<close> for it and the list of backend
  calls, empty before, is still empty.
\<close>

theorem send_approval_email_without_expiration_counterexample:
  "truthy (dict_get (VERIFY_STUDENT (test_settings True)) ''USE_DJANGO_MAIL'')
   \<and> email_calls empty_state = []
   \<and> fst (send_approval_email (test_settings True)
            \<lparr>user = test_user, name = ''Tester McTest'', status = ''created'',
             expiration_datetime = None\<rparr> empty_state) = Inl AttributeError
   \<and> email_calls (snd (send_approval_email (test_settings True)
            \<lparr>user = test_user, name = ''Tester McTest'', status = ''created'',
             expiration_datetime = None\<rparr> empty_state)) = []"
  by (simp add: send_approval_email_def test_settings_def dict_get_def empty_state_def)

section \<open>Nothing is deleted\<close>

text \<open>
  Claim C7. None of the three functions deletes an attempt: every id that has a row before
  a call to \<^verbatim>\<open>send_approval_email\<close>, \<^verbatim>\<open>create_verification_attempt\<close> or
  \<^verbatim>\<open>update_verification_attempt_status\<close> has a row after it, whether the call returns
  or raises.
\<close>

theorem no_operation_deletes:
  "dom (attempts s) \<subseteq> dom (attempts (snd (send_approval_email cfg attempt s)))
   \<and> dom (attempts s) \<subseteq> dom (attempts (snd (create_verification_attempt u n st e s)))
   \<and> dom (attempts s)
       \<subseteq> dom (attempts (snd (update_verification_attempt_status cls_dir attempt_id st s)))"
proof (intro conjI)
  show "dom (attempts s) \<subseteq> dom (attempts (snd (send_approval_email cfg attempt s)))"
    by (simp add: send_approval_email_def Let_def split: option.splits)
  show "dom (attempts s) \<subseteq> dom (attempts (snd (create_verification_attempt u n st e s)))"
    by (auto simp: create_eq)
  show "dom (attempts s)
       \<subseteq> dom (attempts (snd (update_verification_attempt_status cls_dir attempt_id st s)))"
  proof (cases "st \<in> set (status_list_of cls_dir)")
    case False
    then show ?thesis
      by (simp add: update_invalid)
  next
    case True
    show ?thesis
    proof (cases "attempts s attempt_id")
      case None
      with True show ?thesis
        by (simp add: update_valid_missing)
    next
      case (Some row)
      with True show ?thesis
        by (auto simp: update_valid_found)
    qed
  qed
qed

theorem no_operation_deletes_witness:
  "1 \<in> dom (attempts test_state)
   \<and> 1 \<in> dom (attempts (snd (send_approval_email (test_settings True) test_attempt test_state)))
   \<and> 1 \<in> dom (attempts (snd (create_verification_attempt test_user ''Tester McTest''
                                ''approved'' None test_state)))
   \<and> 1 \<in> dom (attempts (snd (update_verification_attempt_status
                                VerificationAttemptStatus_dir 1 ''approved'' test_state)))"
proof -
  have "1 \<in> dom (attempts test_state)"
    by (simp add: test_state_def)
  then show ?thesis
    using no_operation_deletes [where s = test_state and cfg = "test_settings True"
        and attempt = test_attempt and u = test_user and n = "''Tester McTest''"
        and st = "''approved''" and e = None and cls_dir = VerificationAttemptStatus_dir
        and attempt_id = 1]
    by blast
qed

end
